theory Spec2Isabelle
  imports Complex_Main
begin

section \<open>JavaScript values and objects\<close>

text \<open>
  The client handles plain JSON-like values: the REST responses, the realtime payloads and
  the objects kept in the stores. A number is a double in the source; the code under study
  only copies numbers, so they are kept as reals. An object is a finite map from field
  names to values; reading a field that is absent gives \<open>undefined\<close>.
\<close>

datatype jsval =
    JUndefined
  | JNull
  | JBool bool
  | JNum real
  | JStr string
  | JObj "(string \<times> jsval) list"

type_synonym obj = "string \<rightharpoonup> jsval"

definition get_field :: "obj \<Rightarrow> string \<Rightarrow> jsval" where
  \<comment> \<open>\<open>o.name\<close>\<close>
  "get_field ob name = (case ob name of None \<Rightarrow> JUndefined | Some v \<Rightarrow> v)"

subsection \<open>utils/constants.js\<close>

definition REQUESTED :: string where "REQUESTED = ''requested''"
definition ACCEPTED :: string where "ACCEPTED = ''accepted''"
definition IN_PROGRESS :: string where "IN_PROGRESS = ''in_progress''"
definition COMPLETED :: string where "COMPLETED = ''completed''"
definition CANCELLED :: string where "CANCELLED = ''cancelled''"

section \<open>store/rideStore.js\<close>

text \<open>
  The zustand store: \<open>set(partial)\<close> merges the partial object into the state, so
  every action is a record update of the fields it names.
  \<open>currentRide\<close> is \<open>null\<close> or a ride object.
\<close>

record ride_store =
  currentRide :: "obj option"
  rideHistory :: "obj list"
  nearbyDrivers :: "obj list"

definition initial_ride_store :: ride_store where
  "initial_ride_store = \<lparr>currentRide = None, rideHistory = [], nearbyDrivers = []\<rparr>"

definition setCurrentRide :: "obj option \<Rightarrow> ride_store \<Rightarrow> ride_store" where
  "setCurrentRide ride st = st\<lparr>currentRide := ride\<rparr>"

definition updateRideStatus :: "jsval \<Rightarrow> ride_store \<Rightarrow> ride_store" where
  \<comment> \<open>\<open>currentRide: state.currentRide ? { ...state.currentRide, status } : null\<close>\<close>
  "updateRideStatus status st =
     st\<lparr>currentRide :=
          (case currentRide st of
             Some r \<Rightarrow> Some (r(''status'' \<mapsto> status))
           | None \<Rightarrow> None)\<rparr>"

definition setNearbyDrivers :: "obj list \<Rightarrow> ride_store \<Rightarrow> ride_store" where
  "setNearbyDrivers drivers st = st\<lparr>nearbyDrivers := drivers\<rparr>"

definition addToHistory :: "obj \<Rightarrow> ride_store \<Rightarrow> ride_store" where
  "addToHistory ride st = st\<lparr>rideHistory := ride # rideHistory st\<rparr>"


definition ride_status :: "ride_store \<Rightarrow> jsval option" where
  \<comment> \<open>the status an observer of the store reads, when there is a current ride\<close>
  "ride_status st = map_option (\<lambda>r. get_field r ''status'') (currentRide st)"

fun updateRideStatus_all :: "jsval list \<Rightarrow> ride_store \<Rightarrow> ride_store" where
  "updateRideStatus_all [] st = st"
| "updateRideStatus_all (s # ss) st = updateRideStatus_all ss (updateRideStatus s st)"

subsection \<open>The order of the specification\<close>

text \<open>
  The specification orders the normal progression
  Requested < Accepted < InProgress < Completed and lets Cancelled follow Requested or
  Accepted only. \<open>spec_transition\<close> is that relation, written from the specification's
  words; the store itself has no such table.
\<close>

fun spec_rank :: "jsval \<Rightarrow> nat option" where
  "spec_rank (JStr s) =
     (if s = REQUESTED then Some 0
      else if s = ACCEPTED then Some 1
      else if s = IN_PROGRESS then Some 2
      else if s = COMPLETED then Some 3
      else None)"
| "spec_rank _ = None"

definition spec_transition :: "jsval \<Rightarrow> jsval \<Rightarrow> bool" where
  "spec_transition old new =
     (if new = JStr CANCELLED then old = JStr REQUESTED \<or> old = JStr ACCEPTED \<or> old = JStr CANCELLED
      else case (spec_rank old, spec_rank new) of
             (Some a, Some b) \<Rightarrow> a \<le> b
           | _ \<Rightarrow> False)"

definition completed_ride :: obj where
  "completed_ride = [''id'' \<mapsto> JNum 42, ''status'' \<mapsto> JStr COMPLETED, ''fare_amount'' \<mapsto> JNum 18]"

definition completed_store :: ride_store where
  "completed_store = \<lparr>currentRide = Some completed_ride, rideHistory = [], nearbyDrivers = []\<rparr>"

section \<open>store/locationStore.js\<close>

record location_store =
  currentLocation :: "obj option"
  pickupLocation :: "obj option"
  dropoffLocation :: "obj option"

definition initial_location_store :: location_store where
  "initial_location_store =
     \<lparr>currentLocation = None, pickupLocation = None, dropoffLocation = None\<rparr>"

definition setCurrentLocation :: "obj option \<Rightarrow> location_store \<Rightarrow> location_store" where
  "setCurrentLocation loc st = st\<lparr>currentLocation := loc\<rparr>"

definition setPickupLocation :: "obj option \<Rightarrow> location_store \<Rightarrow> location_store" where
  "setPickupLocation loc st = st\<lparr>pickupLocation := loc\<rparr>"

definition setDropoffLocation :: "obj option \<Rightarrow> location_store \<Rightarrow> location_store" where
  "setDropoffLocation loc st = st\<lparr>dropoffLocation := loc\<rparr>"

definition clearLocations :: "location_store \<Rightarrow> location_store" where
  "clearLocations st = st\<lparr>pickupLocation := None, dropoffLocation := None\<rparr>"

section \<open>hooks/useGeolocation\<close>

text \<open>
  The hook keeps \<open>error\<close> and \<open>loading\<close> itself and the current location in the location
  store. The platform delivers each reading to the first callback of \<open>watchPosition\<close> and
  each failure to the second; the watch goes on after a failure.
\<close>

record coords =
  latitude :: real
  longitude :: real

record position =
  position_coords :: coords
  timestamp :: nat

record geolocation =
  geo_error :: "string option"
  geo_loading :: bool
  geo_store :: location_store

definition initial_geolocation :: geolocation where
  "initial_geolocation =
     \<lparr>geo_error = None, geo_loading = True, geo_store = initial_location_store\<rparr>"

definition lat_lng :: "position \<Rightarrow> obj" where
  \<comment> \<open>\<open>{ lat: position.coords.latitude, lng: position.coords.longitude }\<close>\<close>
  "lat_lng pos =
     [''lat'' \<mapsto> JNum (latitude (position_coords pos)),
      ''lng'' \<mapsto> JNum (longitude (position_coords pos))]"

definition onPosition :: "position \<Rightarrow> geolocation \<Rightarrow> geolocation" where
  "onPosition pos g =
     g\<lparr>geo_store := setCurrentLocation (Some (lat_lng pos)) (geo_store g),
       geo_loading := False,
       geo_error := None\<rparr>"

definition onPositionError :: "string \<Rightarrow> geolocation \<Rightarrow> geolocation" where
  "onPositionError message g = g\<lparr>geo_error := Some message, geo_loading := False\<rparr>"

datatype geo_event = Reading position | Failure string

fun watchPosition :: "geo_event list \<Rightarrow> geolocation \<Rightarrow> geolocation" where
  "watchPosition [] g = g"
| "watchPosition (Reading pos # evs) g = watchPosition evs (onPosition pos g)"
| "watchPosition (Failure message # evs) g = watchPosition evs (onPositionError message g)"

definition useGeolocation :: "bool \<Rightarrow> geo_event list \<Rightarrow> geolocation \<Rightarrow> geolocation" where
  \<comment> \<open>the effect: without \<open>navigator.geolocation\<close> no watch is started\<close>
  "useGeolocation supported evs g =
     (if \<not> supported
      then g\<lparr>geo_error := Some ''Geolocation is not supported'', geo_loading := False\<rparr>
      else watchPosition evs g)"

definition reading :: "real \<Rightarrow> real \<Rightarrow> nat \<Rightarrow> position" where
  "reading la lo t = \<lparr>position_coords = \<lparr>latitude = la, longitude = lo\<rparr>, timestamp = t\<rparr>"

section \<open>services/socket.service\<close>

text \<open>
  \<open>SocketService\<close> holds one field, \<open>socket\<close>, which is \<open>null\<close> or the object that
  \<open>io(url, {auth})\<close> returned. The transport is the socket.io client, an external
  library: \<open>io\<close> opens a connection of its own, \<open>socket.on(event, f)\<close> adds \<open>f\<close> to the
  listeners of \<open>event\<close> (kept in registration order, all of them called for a message),
  \<open>socket.off(event)\<close> removes every listener of \<open>event\<close>, \<open>socket.disconnect()\<close> closes the
  connection. A connection that the service no longer refers to is still a connection of
  the process; it is kept in \<open>unreferenced\<close>.
\<close>

datatype 'h listener = LogConnected | LogDisconnected | Callback 'h

record 'h io_socket =
  auth_token :: string
  alive :: bool
  listeners :: "(string \<times> 'h listener) list"
  outbox :: "(string \<times> jsval) list"

record 'h socket_service =
  socket :: "'h io_socket option"
  unreferenced :: "'h io_socket list"

definition initial_socket_service :: "'h socket_service" where
  "initial_socket_service = \<lparr>socket = None, unreferenced = []\<rparr>"

definition io :: "string \<Rightarrow> 'h io_socket" where
  "io token = \<lparr>auth_token = token, alive = True, listeners = [], outbox = []\<rparr>"

definition socket_on :: "string \<Rightarrow> 'h listener \<Rightarrow> 'h io_socket \<Rightarrow> 'h io_socket" where
  "socket_on event f s = s\<lparr>listeners := listeners s @ [(event, f)]\<rparr>"

definition socket_off :: "string \<Rightarrow> 'h io_socket \<Rightarrow> 'h io_socket" where
  "socket_off event s = s\<lparr>listeners := filter (\<lambda>(e, f). e \<noteq> event) (listeners s)\<rparr>"

definition socket_emit :: "string \<Rightarrow> jsval \<Rightarrow> 'h io_socket \<Rightarrow> 'h io_socket" where
  "socket_emit event data s = s\<lparr>outbox := outbox s @ [(event, data)]\<rparr>"

definition socket_disconnect :: "'h io_socket \<Rightarrow> 'h io_socket" where
  "socket_disconnect s = s\<lparr>alive := False\<rparr>"

definition drop_reference :: "'h socket_service \<Rightarrow> 'h io_socket list" where
  \<comment> \<open>what becomes of the connections when \<open>this.socket\<close> is overwritten\<close>
  "drop_reference svc =
     (case socket svc of None \<Rightarrow> unreferenced svc | Some s \<Rightarrow> unreferenced svc @ [s])"

definition connect :: "string \<Rightarrow> 'h socket_service \<Rightarrow> 'h socket_service" where
  "connect token svc =
     \<lparr>socket = Some (socket_on ''disconnect'' LogDisconnected
                       (socket_on ''connect'' LogConnected (io token))),
      unreferenced = drop_reference svc\<rparr>"

definition disconnect :: "'h socket_service \<Rightarrow> 'h socket_service" where
  "disconnect svc =
     (case socket svc of
        Some s \<Rightarrow> \<lparr>socket = None, unreferenced = unreferenced svc @ [socket_disconnect s]\<rparr>
      | None \<Rightarrow> svc)"

definition emit :: "string \<Rightarrow> jsval \<Rightarrow> 'h socket_service \<Rightarrow> 'h socket_service" where
  "emit event data svc =
     (case socket svc of
        Some s \<Rightarrow> svc\<lparr>socket := Some (socket_emit event data s)\<rparr>
      | None \<Rightarrow> svc)"

definition on :: "string \<Rightarrow> 'h \<Rightarrow> 'h socket_service \<Rightarrow> 'h socket_service" where
  "on event callback svc =
     (case socket svc of
        Some s \<Rightarrow> svc\<lparr>socket := Some (socket_on event (Callback callback) s)\<rparr>
      | None \<Rightarrow> svc)"

definition off :: "string \<Rightarrow> 'h socket_service \<Rightarrow> 'h socket_service" where
  "off event svc =
     (case socket svc of
        Some s \<Rightarrow> svc\<lparr>socket := Some (socket_off event s)\<rparr>
      | None \<Rightarrow> svc)"

definition handlers :: "string \<Rightarrow> 'h socket_service \<Rightarrow> 'h listener list" where
  \<comment> \<open>the listeners an inbound message of this topic is handed to\<close>
  "handlers event svc =
     (case socket svc of
        Some s \<Rightarrow> map snd (filter (\<lambda>(e, f). e = event) (listeners s))
      | None \<Rightarrow> [])"

definition active_connections :: "'h socket_service \<Rightarrow> 'h io_socket list" where
  "active_connections svc =
     filter alive (unreferenced svc) @
     (case socket svc of Some s \<Rightarrow> (if alive s then [s] else []) | None \<Rightarrow> [])"

section \<open>utils/helpers: debounce\<close>

text \<open>
  Modelled from the spec: \<open>debounce\<close> of utils/helpers, which LocationPicker imports and
  which is not among the sources. The specification describes it as a trailing-edge
  debounce: each call restarts a fixed delay window, and only the last call within the
  window goes through, with its argument. So a debounced function owns one pending timer:
  a call clears the timer it has pending, if any, and starts a new one that carries the
  argument of this call; the wrapped function runs when a timer expires.

  Timers are those of the browser: a queue of pending timeouts, each with its handle, the
  time at which it is due and the argument it will pass on. Time is counted in
  milliseconds.
\<close>

record timer =
  timer_handle :: nat
  due :: nat
  timer_arg :: string

record timers =
  pending :: "timer list"
  next_handle :: nat

definition no_timers :: timers where
  "no_timers = \<lparr>pending = [], next_handle = 0\<rparr>"

definition clearTimeout :: "nat option \<Rightarrow> timers \<Rightarrow> timers" where
  "clearTimeout h ts =
     (case h of
        None \<Rightarrow> ts
      | Some n \<Rightarrow> ts\<lparr>pending := filter (\<lambda>t. timer_handle t \<noteq> n) (pending ts)\<rparr>)"

definition setTimeout :: "nat \<Rightarrow> string \<Rightarrow> timers \<Rightarrow> nat \<times> timers" where
  "setTimeout when x ts =
     (next_handle ts,
      \<lparr>pending = pending ts @ [\<lparr>timer_handle = next_handle ts, due = when, timer_arg = x\<rparr>],
       next_handle = Suc (next_handle ts)\<rparr>)"

record debounced =
  timeout :: "nat option"

definition debounce :: debounced where
  \<comment> \<open>a new debounced function, nothing pending\<close>
  "debounce = \<lparr>timeout = None\<rparr>"

definition debounced_call ::
  "nat \<Rightarrow> nat \<Rightarrow> string \<Rightarrow> debounced \<times> timers \<Rightarrow> debounced \<times> timers" where
  "debounced_call wait now x = (\<lambda>(d, ts).
     (case setTimeout (now + wait) x (clearTimeout (timeout d) ts) of
        (h, ts') \<Rightarrow> (d\<lparr>timeout := Some h\<rparr>, ts')))"

section \<open>components/maps/LocationPicker\<close>

text \<open>
  The component is a function that React runs again at every render. Its state is what
  \<open>useState\<close> keeps: \<open>query\<close>, \<open>suggestions\<close>, \<open>loading\<close>. Everything else in the body is
  made anew by each render, and so is \<open>searchLocations = debounce(..., 500)\<close>: the
  component refers to the debounced function of its latest render. A debounced function of
  an earlier render is out of reach, but the timer it started stays in the browser's queue
  and fires.

  The place-search provider is external: \<open>place_requests\<close> lists the inputs that
  \<open>getPlacePredictions\<close> was called with, in call order, and the provider's answer comes
  later, as a call of the callback with predictions and a status.
\<close>

record 'p picker =
  query :: string
  suggestions :: "'p list"
  loading :: bool
  searchLocations :: debounced
  browser_timers :: timers
  google_loaded :: bool
  place_requests :: "string list"
  picker_console :: "string list"

definition render :: "'p picker \<Rightarrow> 'p picker" where
  \<comment> \<open>the body runs: \<open>const searchLocations = debounce(async (searchQuery) => ..., 500)\<close>\<close>
  "render w = w\<lparr>searchLocations := debounce\<rparr>"

definition setSuggestions :: "'p list \<Rightarrow> 'p picker \<Rightarrow> 'p picker" where
  \<comment> \<open>a new array is a new state value: the component renders\<close>
  "setSuggestions xs w = render (w\<lparr>suggestions := xs\<rparr>)"

definition setLoading :: "bool \<Rightarrow> 'p picker \<Rightarrow> 'p picker" where
  \<comment> \<open>an unchanged state value does not render\<close>
  "setLoading b w = (if loading w = b then w else render (w\<lparr>loading := b\<rparr>))"

definition search_effect :: "nat \<Rightarrow> 'p picker \<Rightarrow> 'p picker" where
  \<comment> \<open>\<open>useEffect(() => { searchLocations(query) }, [query])\<close>\<close>
  "search_effect now w =
     (case debounced_call 500 now (query w) (searchLocations w, browser_timers w) of
        (d, ts) \<Rightarrow> w\<lparr>searchLocations := d, browser_timers := ts\<rparr>)"

definition setQuery :: "nat \<Rightarrow> string \<Rightarrow> 'p picker \<Rightarrow> 'p picker" where
  \<comment> \<open>a changed query renders, and the effect, which depends on \<open>query\<close>, runs after the render\<close>
  "setQuery now text w =
     (if query w = text then w else search_effect now (render (w\<lparr>query := text\<rparr>)))"

definition mount :: "nat \<Rightarrow> bool \<Rightarrow> 'p picker" where
  \<comment> \<open>first render and first run of the effect\<close>
  "mount now google =
     search_effect now (render
       \<lparr>query = [], suggestions = [], loading = False, searchLocations = debounce,
        browser_timers = no_timers, google_loaded = google, place_requests = [],
        picker_console = []\<rparr>)"

definition PlacesServiceStatus_OK :: string where
  "PlacesServiceStatus_OK = ''OK''"

definition search_body :: "string \<Rightarrow> 'p picker \<Rightarrow> 'p picker" where
  \<comment> \<open>the function that is debounced\<close>
  "search_body searchQuery w =
     (if searchQuery = [] then setSuggestions [] w
      else (let w1 = setLoading True w in
            if google_loaded w1
            then w1\<lparr>place_requests := place_requests w1 @ [searchQuery]\<rparr>
            else setLoading False
                   (w1\<lparr>picker_console := picker_console w1 @ [''Location search error:'']\<rparr>)))"

definition predictions_callback :: "'p list \<Rightarrow> string \<Rightarrow> 'p picker \<Rightarrow> 'p picker" where
  \<comment> \<open>the callback passed to \<open>getPlacePredictions\<close>\<close>
  "predictions_callback predictions status w =
     setLoading False
       (if status = PlacesServiceStatus_OK then setSuggestions predictions w else w)"

fun fire :: "timer list \<Rightarrow> 'p picker \<Rightarrow> 'p picker" where
  "fire [] w = w"
| "fire (t # ts) w = fire ts (search_body (timer_arg t) w)"

definition advance :: "nat \<Rightarrow> 'p picker \<Rightarrow> 'p picker" where
  \<comment> \<open>time passes up to \<open>now\<close>: the timers due by then fire, in the order they were set\<close>
  "advance now w =
     fire (filter (\<lambda>t. due t \<le> now) (pending (browser_timers w)))
       (w\<lparr>browser_timers :=
            (browser_timers w)\<lparr>pending := filter (\<lambda>t. now < due t) (pending (browser_timers w))\<rparr>\<rparr>)"

datatype 'p picker_event =
    Typed nat string
  | Elapsed nat
  | Answered "'p list" string

fun picker_step :: "'p picker_event \<Rightarrow> 'p picker \<Rightarrow> 'p picker" where
  "picker_step (Typed now text) w = setQuery now text (advance now w)"
| "picker_step (Elapsed now) w = advance now w"
| "picker_step (Answered predictions status) w = predictions_callback predictions status w"

fun picker_run :: "'p picker_event list \<Rightarrow> 'p picker \<Rightarrow> 'p picker" where
  "picker_run [] w = w"
| "picker_run (e # es) w = picker_run es (picker_step e w)"

section \<open>services/ride.service and the pages that call it\<close>

text \<open>
  The REST backend is external. A call of \<open>rideService\<close> posts a request and suspends; the
  backend's answer resumes it, either with the body of the response or with an error that
  is thrown at the \<open>await\<close>. The model logs the request and takes the answer as an
  argument: \<open>Inl\<close> an error, \<open>Inr\<close> the body (\<open>None\<close> for an empty body).

  The pages act on what is shared by the whole client: the two stores, the socket
  service, the router's location and the console.
\<close>

datatype request =
    RequestRide obj
  | GetRideStatus string
  | CancelRide string
  | GetRideHistory
  | AcceptRide string
  | StartRide string
  | CompleteRide string
  | EstimateFare obj

type_synonym response = "string + obj option"

datatype route =
    Root
  | RidePage jsval
  | DriverDashboard
  | BookRidePage

record 'h client =
  rideStore :: ride_store
  locationStore :: location_store
  socketService :: "'h socket_service"
  session_token :: "string option"
  location :: route
  console :: "(string \<times> string) list"
  rest_log :: "request list"

text \<open>
  \<open>session_token\<close> is what the pages read from the auth store, which is not among the sources:
  the token when the user is authenticated and has one (\<open>isAuthenticated && token\<close>),
  otherwise nothing.

  \<open>navigate\<close> is the router's. Each call in the handlers below leaves the route of the
  page that makes it, so that page unmounts and the clean-ups of its effects run; they are
  the first argument. What the page that is entered does when it mounts belongs to that
  page and is not part of the step.
\<close>

definition navigate :: "('h client \<Rightarrow> 'h client) \<Rightarrow> route \<Rightarrow> 'h client \<Rightarrow> 'h client" where
  "navigate cleanups r c = (cleanups c)\<lparr>location := r\<rparr>"

definition no_cleanups :: "'h client \<Rightarrow> 'h client" where
  \<comment> \<open>a page none of whose effects returns a clean-up\<close>
  "no_cleanups c = c"

definition console_error :: "string \<Rightarrow> string \<Rightarrow> 'h client \<Rightarrow> 'h client" where
  "console_error message err c = c\<lparr>console := console c @ [(message, err)]\<rparr>"

definition post :: "request \<Rightarrow> 'h client \<Rightarrow> 'h client" where
  "post req c = c\<lparr>rest_log := rest_log c @ [req]\<rparr>"

subsection \<open>pages/passenger/BookRide\<close>

record book_ride =
  estimatedFare :: "jsval option"
  book_loading :: bool
  step :: nat

definition rideData :: "obj \<Rightarrow> obj \<Rightarrow> obj" where
  "rideData pickup dropoff =
     [''pickup_latitude'' \<mapsto> get_field pickup ''lat'',
      ''pickup_longitude'' \<mapsto> get_field pickup ''lng'',
      ''pickup_address'' \<mapsto> get_field pickup ''address'',
      ''destination_latitude'' \<mapsto> get_field dropoff ''lat'',
      ''destination_longitude'' \<mapsto> get_field dropoff ''lng'',
      ''destination_address'' \<mapsto> get_field dropoff ''address'']"

definition handleConfirmBooking ::
  "response \<Rightarrow> book_ride \<times> 'h client \<Rightarrow> book_ride \<times> 'h client" where
  \<comment> \<open>\<open>try { ... } catch (error) { console.error(...) } finally { setLoading(false) }\<close>;
      reading \<open>.lat\<close> of a location that is \<open>null\<close>, or \<open>.id\<close> of an empty body, throws\<close>
  "handleConfirmBooking answer = (\<lambda>(page, c).
     (page\<lparr>book_loading := False\<rparr>,
      (case (pickupLocation (locationStore c), dropoffLocation (locationStore c)) of
         (Some pickup, Some dropoff) \<Rightarrow>
           (let c1 = post (RequestRide (rideData pickup dropoff)) c in
            case answer of
              Inl err \<Rightarrow> console_error ''Failed to book ride:'' err c1
            | Inr ride \<Rightarrow>
                (let c2 = c1\<lparr>rideStore := setCurrentRide ride (rideStore c1)\<rparr> in
                 case ride of
                   Some r \<Rightarrow> navigate no_cleanups (RidePage (get_field r ''id'')) c2
                 | None \<Rightarrow> console_error ''Failed to book ride:'' ''TypeError'' c2))
       | _ \<Rightarrow> console_error ''Failed to book ride:'' ''TypeError'' c)))"

subsection \<open>pages/passenger/RideTracking\<close>

text \<open>
  The page calls \<open>useSocket\<close> and then has one effect of its own, run at mount and when
  \<open>rideId\<close> changes. The effect subscribes to \<open>ride_<rideId>_update\<close> and to
  \<open>driver_<ride?.driver_id>_location\<close>, and its clean-up unsubscribes from the same two
  topics. Effect and clean-up are closures of the render the effect ran for, so the \<open>ride\<close>
  they read is that render's: \<open>driver_topic\<close> is the topic computed then
  (\<open>driver_undefined_location\<close> when the ride was not loaded yet).
\<close>

record ride_tracking =
  tracking_rideId :: string
  tracking_ride :: "obj option"
  driver :: "obj option"
  showCancelModal :: bool
  tracking_loading :: bool
  driver_topic :: string

definition ride_topic :: "string \<Rightarrow> string" where
  "ride_topic rideId = ''ride_'' @ rideId @ ''_update''"

definition useSocket_cleanup :: "'h client \<Rightarrow> 'h client" where
  \<comment> \<open>hooks/useSocket: the effect connects and returns \<open>() => socketService.disconnect()\<close>
      only when there is a token\<close>
  "useSocket_cleanup c =
     (case session_token c of
        Some t \<Rightarrow> c\<lparr>socketService := disconnect (socketService c)\<rparr>
      | None \<Rightarrow> c)"

definition RideTracking_cleanup :: "ride_tracking \<Rightarrow> 'h client \<Rightarrow> 'h client" where
  "RideTracking_cleanup page c =
     c\<lparr>socketService :=
         off (driver_topic page) (off (ride_topic (tracking_rideId page)) (socketService c))\<rparr>"

definition unmount_RideTracking :: "ride_tracking \<Rightarrow> 'h client \<Rightarrow> 'h client" where
  \<comment> \<open>the clean-ups run in the order of the hooks: \<open>useSocket\<close> first, then the page's effect\<close>
  "unmount_RideTracking page c = RideTracking_cleanup page (useSocket_cleanup c)"

definition handleCancelRide ::
  "response \<Rightarrow> ride_tracking \<times> 'h client \<Rightarrow> ride_tracking \<times> 'h client" where
  "handleCancelRide answer = (\<lambda>(page, c).
     (let c1 = post (CancelRide (tracking_rideId page)) c in
      case answer of
        Inr body \<Rightarrow> (page, navigate (unmount_RideTracking page) Root c1)
      | Inl err \<Rightarrow> (page, console_error ''Failed to cancel ride:'' err c1)))"

definition cancel_button_shown :: "ride_tracking \<Rightarrow> bool" where
  \<comment> \<open>the page renders the Cancel Ride button, which opens the confirmation, for these
      statuses only\<close>
  "cancel_button_shown page =
     (case tracking_ride page of
        None \<Rightarrow> False
      | Some r \<Rightarrow> get_field r ''status'' = JStr REQUESTED \<or> get_field r ''status'' = JStr ACCEPTED)"

subsection \<open>pages/driver/AcceptRide\<close>

record accept_ride =
  accept_rideId :: string
  accept_ride :: "obj option"
  accept_loading :: bool

definition handleStartRide ::
  "response \<Rightarrow> accept_ride \<times> 'h client \<Rightarrow> accept_ride \<times> 'h client" where
  \<comment> \<open>on success \<open>setRide({ ...ride, status: 'in_progress' })\<close>; spreading \<open>null\<close> gives no field\<close>
  "handleStartRide answer = (\<lambda>(page, c).
     (let c1 = post (StartRide (accept_rideId page)) c in
      case answer of
        Inr body \<Rightarrow>
          (page\<lparr>accept_ride :=
                  Some ((case accept_ride page of Some r \<Rightarrow> r | None \<Rightarrow> Map.empty)
                          (''status'' \<mapsto> JStr ''in_progress''))\<rparr>,
           c1)
      | Inl err \<Rightarrow> (page, console_error ''Failed to start ride:'' err c1)))"

definition handleCompleteRide ::
  "response \<Rightarrow> accept_ride \<times> 'h client \<Rightarrow> accept_ride \<times> 'h client" where
  \<comment> \<open>the page does not use the socket, and its one effect, which loads the ride, returns
      no clean-up\<close>
  "handleCompleteRide answer = (\<lambda>(page, c).
     (let c1 = post (CompleteRide (accept_rideId page)) c in
      case answer of
        Inr body \<Rightarrow> (page, navigate no_cleanups DriverDashboard c1)
      | Inl err \<Rightarrow> (page, console_error ''Failed to complete ride:'' err c1)))"

section \<open>Scenarios\<close>

definition in_progress_ride :: obj where
  "in_progress_ride =
     [''id'' \<mapsto> JNum 42, ''status'' \<mapsto> JStr IN_PROGRESS, ''fare_amount'' \<mapsto> JNum 18]"

definition tracking_in_progress :: ride_tracking where
  "tracking_in_progress =
     \<lparr>tracking_rideId = ''42'', tracking_ride = Some in_progress_ride, driver = None,
      showCancelModal = True, tracking_loading = False,
      driver_topic = ''driver_undefined_location''\<rparr>"

definition driving_in_progress :: accept_ride where
  "driving_in_progress =
     \<lparr>accept_rideId = ''42'', accept_ride = Some in_progress_ride, accept_loading = False\<rparr>"

definition client_in_progress :: "string client" where
  "client_in_progress =
     \<lparr>rideStore = \<lparr>currentRide = Some in_progress_ride, rideHistory = [], nearbyDrivers = []\<rparr>,
      locationStore = initial_location_store,
      socketService =
        on ''driver_undefined_location'' ''h2''
          (on ''ride_42_update'' ''h1'' (connect ''token'' initial_socket_service)),
      session_token = Some ''token'',
      location = RidePage (JNum 42),
      console = [],
      rest_log = []\<rparr>"

definition booking_page :: book_ride where
  "booking_page = \<lparr>estimatedFare = Some (JNum 18), book_loading = False, step = 2\<rparr>"

definition client_booking :: "string client" where
  "client_booking =
     \<lparr>rideStore = initial_ride_store,
      locationStore =
        \<lparr>currentLocation = None,
         pickupLocation = Some [''address'' \<mapsto> JStr ''A St'', ''lat'' \<mapsto> JNum 40.0, ''lng'' \<mapsto> JNum (-74.0)],
         dropoffLocation = Some [''address'' \<mapsto> JStr ''B St'', ''lat'' \<mapsto> JNum 40.2, ''lng'' \<mapsto> JNum (-74.2)]\<rparr>,
      socketService = connect ''token'' initial_socket_service,
      session_token = Some ''token'',
      location = BookRidePage,
      console = [],
      rest_log = []\<rparr>"

definition predictions_for_a :: "string list" where
  "predictions_for_a = [''Amsterdam'']"

definition predictions_for_ab :: "string list" where
  "predictions_for_ab = [''Abbey Road'']"

definition accepted_ride :: obj where
  "accepted_ride =
     [''id'' \<mapsto> JNum 42, ''status'' \<mapsto> JStr ACCEPTED, ''fare_amount'' \<mapsto> JNum 18]"

definition tracking_accepted :: ride_tracking where
  "tracking_accepted =
     \<lparr>tracking_rideId = ''42'', tracking_ride = Some accepted_ride, driver = None,
      showCancelModal = True, tracking_loading = False,
      driver_topic = ''driver_undefined_location''\<rparr>"

definition client_accepted :: "string client" where
  "client_accepted =
     \<lparr>rideStore = \<lparr>currentRide = Some accepted_ride, rideHistory = [], nearbyDrivers = []\<rparr>,
      locationStore = initial_location_store,
      socketService =
        on ''driver_undefined_location'' ''h2''
          (on ''ride_42_update'' ''h1'' (connect ''token'' initial_socket_service)),
      session_token = Some ''token'',
      location = RidePage (JNum 42),
      console = [],
      rest_log = []\<rparr>"

section \<open>Properties of the ride store\<close>

lemmas RIDE_STATUS_defs = REQUESTED_def ACCEPTED_def IN_PROGRESS_def COMPLETED_def CANCELLED_def

lemma updateRideStatus_status:
  "currentRide st = Some r \<Longrightarrow> ride_status (updateRideStatus s st) = Some s"
  by (simp add: updateRideStatus_def ride_status_def get_field_def)

lemma updateRideStatus_keeps_ride:
  "currentRide st \<noteq> None \<Longrightarrow> currentRide (updateRideStatus s st) \<noteq> None"
  by (auto simp: updateRideStatus_def)

text \<open>
  C1, as the store behaves. \<open>updateRideStatus\<close> has no ordering check: on a store with a
  current ride every call is applied, so after any non-empty sequence of calls the stored
  status is the status of the last call, whatever the previous status was.
\<close>

theorem updateRideStatus_last_wins:
  "currentRide st \<noteq> None \<Longrightarrow> ss \<noteq> [] \<Longrightarrow>
   ride_status (updateRideStatus_all ss st) = Some (last ss)"
proof (induction ss arbitrary: st)
  case Nil
  then show ?case by simp
next
  case (Cons s ss)
  from Cons.prems obtain r where r: "currentRide st = Some r" by auto
  show ?case
  proof (cases "ss = []")
    case True
    with r show ?thesis by (simp add: updateRideStatus_status)
  next
    case False
    have "currentRide (updateRideStatus s st) \<noteq> None"
      using Cons.prems(1) by (rule updateRideStatus_keeps_ride)
    with False Cons.IH show ?thesis by simp
  qed
qed

theorem updateRideStatus_last_wins_witness:
  "currentRide completed_store \<noteq> None \<and> [JStr IN_PROGRESS, JStr ACCEPTED] \<noteq> [] \<and>
   ride_status (updateRideStatus_all [JStr IN_PROGRESS, JStr ACCEPTED] completed_store)
     = Some (JStr ACCEPTED)"
proof -
  have h: "currentRide completed_store \<noteq> None" by (simp add: completed_store_def)
  have n: "[JStr IN_PROGRESS, JStr ACCEPTED] \<noteq> []" by simp
  from updateRideStatus_last_wins [OF h n] h show ?thesis by simp
qed

text \<open>
  C1, as the specification states it, fails: a store whose ride is Completed accepts an
  Accepted update. The transition is not one of the specification's, and the status
  regresses.
\<close>

theorem updateRideStatus_regresses:
  "ride_status completed_store = Some (JStr COMPLETED) \<and>
   ride_status (updateRideStatus (JStr ACCEPTED) completed_store) = Some (JStr ACCEPTED) \<and>
   \<not> spec_transition (JStr COMPLETED) (JStr ACCEPTED)"
  by (simp add: completed_store_def completed_ride_def updateRideStatus_def ride_status_def
      get_field_def spec_transition_def RIDE_STATUS_defs)

text \<open>
  C10. \<open>updateRideStatus\<close> writes the \<open>status\<close> field of the current ride and nothing
  else: every other field of the ride, the ride history and the nearby drivers are as
  before; without a current ride the whole store is as before.
\<close>

theorem updateRideStatus_frame:
  "rideHistory (updateRideStatus s st) = rideHistory st \<and>
   nearbyDrivers (updateRideStatus s st) = nearbyDrivers st \<and>
   (case currentRide st of
      None \<Rightarrow> updateRideStatus s st = st
    | Some r \<Rightarrow>
        (\<exists>r'. currentRide (updateRideStatus s st) = Some r' \<and>
              (\<forall>k. k \<noteq> ''status'' \<longrightarrow> r' k = r k)))"
  by (cases "currentRide st") (simp_all add: updateRideStatus_def)

theorem updateRideStatus_frame_witness:
  "(\<exists>r'. currentRide (updateRideStatus (JStr ACCEPTED) completed_store) = Some r' \<and>
         r' ''id'' = Some (JNum 42) \<and> r' ''fare_amount'' = Some (JNum 18)) \<and>
   updateRideStatus (JStr ACCEPTED) initial_ride_store = initial_ride_store"
proof -
  have a: "currentRide completed_store = Some completed_ride"
    by (simp add: completed_store_def)
  have b: "currentRide initial_ride_store = None"
    by (simp add: initial_ride_store_def)
  from updateRideStatus_frame [of "JStr ACCEPTED" completed_store] a
  obtain r' where r': "currentRide (updateRideStatus (JStr ACCEPTED) completed_store) = Some r'"
    and fr: "\<forall>k. k \<noteq> ''status'' \<longrightarrow> r' k = completed_ride k"
    by auto
  from fr have "r' ''id'' = completed_ride ''id''" "r' ''fare_amount'' = completed_ride ''fare_amount''"
    by simp_all
  then have c: "r' ''id'' = Some (JNum 42) \<and> r' ''fare_amount'' = Some (JNum 18)"
    by (simp add: completed_ride_def)
  from updateRideStatus_frame [of "JStr ACCEPTED" initial_ride_store] b
  have d: "updateRideStatus (JStr ACCEPTED) initial_ride_store = initial_ride_store"
    by simp
  from r' c d show ?thesis by blast
qed

section \<open>Properties of the geolocation watcher\<close>

lemma onPosition_currentLocation:
  "currentLocation (geo_store (onPosition pos g)) = Some (lat_lng pos)"
  by (simp add: onPosition_def setCurrentLocation_def)

lemma watchPosition_append:
  "watchPosition (evs @ evs') g = watchPosition evs' (watchPosition evs g)"
  by (induction evs g rule: watchPosition.induct) simp_all

lemma watchPosition_readings:
  "ps \<noteq> [] \<Longrightarrow>
   currentLocation (geo_store (watchPosition (map Reading ps) g)) = Some (lat_lng (last ps))"
proof (induction ps rule: rev_induct)
  case Nil
  then show ?case by simp
next
  case (snoc p ps)
  have "watchPosition (map Reading (ps @ [p])) g
          = onPosition p (watchPosition (map Reading ps) g)"
    by (simp add: watchPosition_append)
  then show ?case
    by (simp add: onPosition_currentLocation)
qed

text \<open>
  C9. Each reading delivered to the watcher overwrites the current location of the
  location store, so after a non-empty sequence of readings the current location is the
  object whose \<open>lat\<close> and \<open>lng\<close> are the latitude and the longitude of the last
  reading, and it has no other field.
\<close>

theorem useGeolocation_last_reading:
  "ps \<noteq> [] \<Longrightarrow>
   currentLocation (geo_store (useGeolocation True (map Reading ps) g))
     = Some [''lat'' \<mapsto> JNum (latitude (position_coords (last ps))),
             ''lng'' \<mapsto> JNum (longitude (position_coords (last ps)))]"
  by (simp add: useGeolocation_def watchPosition_readings lat_lng_def)

theorem useGeolocation_last_reading_witness:
  "[reading 40.0 (-74.0) 1, reading 40.1 (-74.1) 2, reading 40.2 (-74.2) 3] \<noteq> [] \<and>
   currentLocation (geo_store (useGeolocation True
       (map Reading [reading 40.0 (-74.0) 1, reading 40.1 (-74.1) 2, reading 40.2 (-74.2) 3])
       initial_geolocation))
     = Some [''lat'' \<mapsto> JNum 40.2, ''lng'' \<mapsto> JNum (-74.2)]"
proof -
  have n: "[reading 40.0 (-74.0) 1, reading 40.1 (-74.1) 2, reading 40.2 (-74.2) 3] \<noteq> []"
    by simp
  from useGeolocation_last_reading [OF n, of initial_geolocation] show ?thesis
    by (simp add: reading_def)
qed

section \<open>Properties of the socket service\<close>

lemma handlers_on_connected:
  "socket svc = Some s \<Longrightarrow>
   handlers t (on t h svc) = handlers t svc @ [Callback h]"
  by (simp add: handlers_def on_def socket_on_def)

lemma socket_on_connected:
  "socket svc = Some s \<Longrightarrow> socket (on t h svc) = Some (socket_on t (Callback h) s)"
  by (simp add: on_def)

text \<open>
  C5, as the service behaves. \<open>on\<close> hands the callback to the socket, which adds it to
  the listeners of the topic: two subscriptions to one topic leave both callbacks
  registered, in the order of registration, after the ones that were there. Without a
  socket \<open>on\<close> does nothing.
\<close>

theorem on_twice_accumulates:
  "(socket svc \<noteq> None \<longrightarrow>
      handlers t (on t h2 (on t h1 svc)) = handlers t svc @ [Callback h1, Callback h2]) \<and>
   (socket svc = None \<longrightarrow> on t h2 (on t h1 svc) = svc)"
proof (cases "socket svc")
  case None
  then show ?thesis by (simp add: on_def)
next
  case (Some s)
  have "handlers t (on t h2 (on t h1 svc)) = handlers t (on t h1 svc) @ [Callback h2]"
    using socket_on_connected [OF Some] by (rule handlers_on_connected)
  also have "handlers t (on t h1 svc) = handlers t svc @ [Callback h1]"
    using Some by (rule handlers_on_connected)
  finally show ?thesis using Some by simp
qed

theorem on_twice_accumulates_witness:
  "socket (connect ''token'' (initial_socket_service :: string socket_service)) \<noteq> None \<and>
   handlers ''ride_42_update''
     (on ''ride_42_update'' ''h2'' (on ''ride_42_update'' ''h1''
        (connect ''token'' initial_socket_service)))
     = [Callback ''h1'', Callback ''h2''] \<and>
   socket (initial_socket_service :: string socket_service) = None \<and>
   on ''ride_42_update'' ''h2'' (on ''ride_42_update'' ''h1'' initial_socket_service)
     = (initial_socket_service :: string socket_service)"
proof -
  have c: "socket (connect ''token'' (initial_socket_service :: string socket_service)) \<noteq> None"
    by (simp add: connect_def)
  have e: "handlers ''ride_42_update'' (connect ''token'' (initial_socket_service :: string socket_service)) = []"
    by (simp add: handlers_def connect_def socket_on_def io_def)
  have d: "socket (initial_socket_service :: string socket_service) = None"
    by (simp add: initial_socket_service_def)
  from on_twice_accumulates
         [of "connect ''token'' (initial_socket_service :: string socket_service)"
             "''ride_42_update''" "''h2''" "''h1''"]
       on_twice_accumulates
         [of "initial_socket_service :: string socket_service"
             "''ride_42_update''" "''h2''" "''h1''"]
       c d e
  show ?thesis by simp
qed

text \<open>
  C5, as the specification states it, fails: after subscribing the same handler twice to
  \<open>ride_42_update\<close> on a connected service, a message of that topic is handed to two
  listeners, not to one.
\<close>

theorem on_twice_two_handlers:
  "handlers ''ride_42_update''
     (on ''ride_42_update'' ''h1'' (on ''ride_42_update'' ''h1''
        (connect ''token'' initial_socket_service)))
     = [Callback ''h1'', Callback ''h1''] \<and>
   length (handlers ''ride_42_update''
     (on ''ride_42_update'' ''h1'' (on ''ride_42_update'' ''h1''
        (connect ''token'' initial_socket_service)))) \<noteq> 1"
  by (simp add: handlers_def on_def connect_def socket_on_def io_def)

text \<open>
  C6, as the service behaves. \<open>connect\<close> opens a new connection with the token and makes it
  the one the service refers to. It does not close anything: every connection that was
  active stays active, so each call adds one active connection. Only \<open>disconnect\<close> closes
  a connection, the one the service refers to at that moment.
\<close>

theorem connect_adds_connection:
  "(\<exists>s. socket (connect token svc) = Some s \<and> auth_token s = token \<and> alive s \<and>
        active_connections (connect token svc) = active_connections svc @ [s]) \<and>
   length (active_connections (connect token svc)) = Suc (length (active_connections svc))"
  by (cases "socket svc")
     (simp_all add: active_connections_def connect_def drop_reference_def socket_on_def io_def)

text \<open>
  C6, as the specification states it, fails: two calls of \<open>connect\<close> in a row leave two
  active connections, the first one still open with its token.
\<close>

theorem connect_twice_two_connections:
  "map auth_token (active_connections
       (connect ''token2'' (connect ''token1'' (initial_socket_service :: string socket_service))))
     = [''token1'', ''token2'']"
  by (simp add: active_connections_def connect_def drop_reference_def socket_on_def io_def
      initial_socket_service_def)

section \<open>Properties of the place search\<close>

lemmas picker_defs =
  mount_def render_def search_effect_def setQuery_def setSuggestions_def setLoading_def
  search_body_def predictions_callback_def advance_def debounce_def debounced_call_def
  setTimeout_def clearTimeout_def no_timers_def PlacesServiceStatus_OK_def

text \<open>
  The debounce of the helper does what the specification says of it: a second call of the
  same debounced function replaces the timer of the first, so one timer is left, with the
  argument of the second call.
\<close>

lemma debounced_call_restarts:
  assumes "timeout d = None"
    and "\<forall>t \<in> set (pending ts). timer_handle t < next_handle ts"
  shows "pending (snd (debounced_call wait t2 y (debounced_call wait t1 x (d, ts))))
           = pending ts @ [\<lparr>timer_handle = Suc (next_handle ts), due = t2 + wait, timer_arg = y\<rparr>]"
proof -
  have "filter (\<lambda>t. timer_handle t \<noteq> next_handle ts) (pending ts) = pending ts"
    using assms(2) by (auto simp: filter_id_conv)
  then show ?thesis
    using assms(1) by (simp add: debounced_call_def setTimeout_def clearTimeout_def)
qed

text \<open>
  In the component a changed query never meets a pending timer of its own debounced
  function, since the render before the effect has made the function anew: the call adds
  a timer and removes none.
\<close>

lemma setQuery_adds_timer:
  "query w \<noteq> text \<Longrightarrow>
   pending (browser_timers (setQuery now text w))
     = pending (browser_timers w)
       @ [\<lparr>timer_handle = next_handle (browser_timers w), due = now + 500, timer_arg = text\<rparr>]"
  by (simp add: setQuery_def search_effect_def render_def debounce_def debounced_call_def
      setTimeout_def clearTimeout_def)

text \<open>
  C3 at a concrete input. The picker is mounted at time 0 and its first, empty search has
  passed. The user types \<open>a\<close>, \<open>ab\<close>, \<open>abc\<close> at 1000, 1100 and 1200 ms, within one window
  of 500 ms, and nothing more. By 2000 ms the provider has been called three times, with
  \<open>a\<close>, \<open>ab\<close> and \<open>abc\<close>, not once with \<open>abc\<close>.
\<close>

theorem searchLocations_three_requests:
  "place_requests
     (picker_run [Elapsed 600, Typed 1000 ''a'', Typed 1100 ''ab'', Typed 1200 ''abc'', Elapsed 2000]
        (mount 0 True :: string picker))
     = [''a'', ''ab'', ''abc'']"
  by (simp add: picker_defs)

text \<open>
  C4, as the component behaves. The callback given to the provider keeps no sequence
  number and does not look at which request it answers: an answer with status OK replaces
  the suggestions when it arrives, and any other answer leaves them as they are.
\<close>

theorem predictions_callback_applies:
  "suggestions (predictions_callback predictions status w)
     = (if status = PlacesServiceStatus_OK then predictions else suggestions w)"
  by (simp add: predictions_callback_def setLoading_def setSuggestions_def render_def)

text \<open>
  C4, as the specification states it, fails. The search for \<open>a\<close> is issued at 1500 ms and
  the search for \<open>ab\<close> at 2100 ms. The answer for \<open>ab\<close> arrives first and is shown; the
  answer for \<open>a\<close> arrives after it and replaces it.
\<close>

theorem stale_answer_overwrites:
  "place_requests
     (picker_run [Elapsed 600, Typed 1000 ''a'', Elapsed 1500, Typed 1600 ''ab'', Elapsed 2100]
        (mount 0 True :: string picker))
     = [''a'', ''ab''] \<and>
   suggestions
     (picker_run [Elapsed 600, Typed 1000 ''a'', Elapsed 1500, Typed 1600 ''ab'', Elapsed 2100,
                  Answered predictions_for_ab ''OK'']
        (mount 0 True))
     = predictions_for_ab \<and>
   suggestions
     (picker_run [Elapsed 600, Typed 1000 ''a'', Elapsed 1500, Typed 1600 ''ab'', Elapsed 2100,
                  Answered predictions_for_ab ''OK'', Answered predictions_for_a ''OK'']
        (mount 0 True))
     = predictions_for_a \<and>
   predictions_for_a \<noteq> predictions_for_ab"
  by (simp add: picker_defs predictions_for_a_def predictions_for_ab_def)

section \<open>Properties of the lifecycle handlers\<close>

lemmas handler_defs =
  handleConfirmBooking_def handleCancelRide_def handleStartRide_def handleCompleteRide_def
  post_def navigate_def no_cleanups_def console_error_def

lemma unmount_RideTracking_frame:
  "rideStore (unmount_RideTracking page c) = rideStore c"
  "locationStore (unmount_RideTracking page c) = locationStore c"
  "rest_log (unmount_RideTracking page c) = rest_log c"
  "console (unmount_RideTracking page c) = console c"
  "location (unmount_RideTracking page c) = location c"
  by (simp_all add: unmount_RideTracking_def RideTracking_cleanup_def useSocket_cleanup_def
      split: option.split)



lemma cancel_button_hidden_in_progress:
  "\<not> cancel_button_shown tracking_in_progress"
  by (simp add: cancel_button_shown_def tracking_in_progress_def in_progress_ride_def
      get_field_def RIDE_STATUS_defs)

text \<open>
  C2, as the page behaves. \<open>handleCancelRide\<close> does not look at the status of the ride.
  It always posts the cancel request. Whatever the answer, the page's ride and the ride
  store are as before. When the backend answers with success the client navigates to the
  root; when it answers with an error, the error is logged and the location stays.
\<close>

theorem handleCancelRide_effect:
  "handleCancelRide answer (page, c) = (page', c') \<Longrightarrow>
   page' = page \<and> rideStore c' = rideStore c \<and>
   rest_log c' = rest_log c @ [CancelRide (tracking_rideId page)] \<and>
   (case answer of
      Inr body \<Rightarrow> location c' = Root \<and> console c' = console c
    | Inl err \<Rightarrow> location c' = location c \<and>
                 console c' = console c @ [(''Failed to cancel ride:'', err)])"
  by (cases answer) (auto simp: handler_defs unmount_RideTracking_frame)

theorem handleCancelRide_effect_witness:
  "tracking_ride (fst (handleCancelRide (Inl ''409'') (tracking_in_progress, client_in_progress)))
     = Some in_progress_ride \<and>
   rest_log (snd (handleCancelRide (Inl ''409'') (tracking_in_progress, client_in_progress)))
     = [CancelRide ''42''] \<and>
   location (snd (handleCancelRide (Inl ''409'') (tracking_in_progress, client_in_progress)))
     = RidePage (JNum 42) \<and>
   location (snd (handleCancelRide (Inr None) (tracking_in_progress, client_in_progress)))
     = Root"
proof -
  have a: "handleCancelRide (Inl ''409'') (tracking_in_progress, client_in_progress)
            = (fst (handleCancelRide (Inl ''409'') (tracking_in_progress, client_in_progress)),
               snd (handleCancelRide (Inl ''409'') (tracking_in_progress, client_in_progress)))"
    by simp
  have b: "handleCancelRide (Inr None) (tracking_in_progress, client_in_progress)
            = (fst (handleCancelRide (Inr None) (tracking_in_progress, client_in_progress)),
               snd (handleCancelRide (Inr None) (tracking_in_progress, client_in_progress)))"
    by simp
  from handleCancelRide_effect [OF a] handleCancelRide_effect [OF b] show ?thesis
    by (simp add: tracking_in_progress_def client_in_progress_def)
qed

text \<open>
  C2, as the specification states it, fails. The ride is in progress and the confirmation
  is open; the backend answers the cancel request with success. The request has been
  posted, nothing is reported as rejected, and the client has left the page for the root:
  a successful cancel has been performed.
\<close>

theorem handleCancelRide_in_progress_performed:
  "tracking_ride tracking_in_progress = Some in_progress_ride \<and>
   get_field in_progress_ride ''status'' = JStr IN_PROGRESS \<and>
   rest_log (snd (handleCancelRide (Inr None) (tracking_in_progress, client_in_progress)))
     = [CancelRide ''42''] \<and>
   console (snd (handleCancelRide (Inr None) (tracking_in_progress, client_in_progress))) = [] \<and>
   location (snd (handleCancelRide (Inr None) (tracking_in_progress, client_in_progress))) = Root"
  by (simp add: handler_defs unmount_RideTracking_frame tracking_in_progress_def
      client_in_progress_def in_progress_ride_def get_field_def)

text \<open>
  C7. When the REST call of a lifecycle handler fails, the ride store is left as it was:
  this holds for the booking (\<open>requestRide\<close>), and for cancel, start and complete.
\<close>

theorem failed_call_keeps_ride_store:
  "rideStore (snd (handleConfirmBooking (Inl err) (booking, c))) = rideStore c \<and>
   rideStore (snd (handleCancelRide (Inl err) (tracking, c))) = rideStore c \<and>
   rideStore (snd (handleStartRide (Inl err) (driving, c))) = rideStore c \<and>
   rideStore (snd (handleCompleteRide (Inl err) (driving, c))) = rideStore c"
  by (simp add: handler_defs split: option.split)

theorem failed_call_keeps_ride_store_witness:
  "rideStore (snd (handleConfirmBooking (Inl ''500'') (booking_page, client_booking)))
     = initial_ride_store \<and>
   currentRide (rideStore (snd (handleCancelRide (Inl ''500'') (tracking_accepted, client_accepted))))
     = Some accepted_ride \<and>
   currentRide (rideStore (snd (handleStartRide (Inl ''500'') (driving_in_progress, client_in_progress))))
     = Some in_progress_ride \<and>
   currentRide (rideStore (snd (handleCompleteRide (Inl ''500'') (driving_in_progress, client_in_progress))))
     = Some in_progress_ride"
  using failed_call_keeps_ride_store
          [of "''500''" booking_page client_booking tracking_accepted driving_in_progress]
        failed_call_keeps_ride_store
          [of "''500''" booking_page client_accepted tracking_accepted driving_in_progress]
        failed_call_keeps_ride_store
          [of "''500''" booking_page client_in_progress tracking_accepted driving_in_progress]
  by (simp add: client_booking_def client_accepted_def client_in_progress_def)




end
